theory Spec2Isabelle
  imports Complex_Main "HOL-Library.AList"
begin

section \<open>Knowledge base API (src/kb\_api.py)\<close>

text \<open>
  The module is a set of request handlers over a directory of Chroma stores. The handlers
  are modelled as functions from the state of the filesystem to a result and the new state.
  Python strings are modelled as \<open>string\<close>, each \<open>char\<close> standing for one code point in
  the range U+0000..U+00FF. Python floats are modelled as \<open>real\<close>.
\<close>

subsection \<open>Exceptions\<close>

text \<open>
  \<open>HTTPException\<close> carries the status code and the detail. A detail that is an f-string
  over a caught exception keeps that exception as an argument.
\<close>

datatype exn =
    HTTPException nat detail
  | ValueError string
  | UnboundLocalError string
  | OSError string
  | LibraryError string
  | ZeroDivisionError string
  | TypeError string
  | SyntaxError string
  | ArithmeticError string
  | AttributeError string
  | RecursionError string
and detail =
    UnsupportedFileType string
  | BadCollectionName
  | NoTextExtracted
  | CollectionNotFound string
  | ErrorProcessingDocument exn
  | ErrorQueryingCollection exn
  | ErrorDeletingCollection exn
  | ErrorGettingStats exn

subsection \<open>Python string and path operations\<close>

definition isalnum_char :: "char \<Rightarrow> bool" where
  \<comment> \<open>\<open>str.isalnum\<close> on one code point below U+0100: the ASCII digits and letters, the
      Latin-1 letters, and the Latin-1 superscript digits and fractions.\<close>
  "isalnum_char c =
     (let n = (of_char c :: nat)
      in (48 \<le> n \<and> n \<le> 57) \<or> (65 \<le> n \<and> n \<le> 90) \<or> (97 \<le> n \<and> n \<le> 122) \<or>
         n = 170 \<or> n = 178 \<or> n = 179 \<or> n = 181 \<or> n = 185 \<or> n = 186 \<or>
         (188 \<le> n \<and> n \<le> 190) \<or> (192 \<le> n \<and> n \<le> 214) \<or>
         (216 \<le> n \<and> n \<le> 246) \<or> (248 \<le> n \<and> n \<le> 255))"

definition isalnum :: "string \<Rightarrow> bool" where
  \<comment> \<open>\<open>str.isalnum\<close>: at least one character, and all of them alphanumeric.\<close>
  "isalnum s = (s \<noteq> [] \<and> list_all isalnum_char s)"

definition replace :: "char \<Rightarrow> string \<Rightarrow> string \<Rightarrow> string" where
  \<comment> \<open>\<open>s.replace(old, new)\<close> for a one-character \<open>old\<close>.\<close>
  "replace old new s = concat (map (\<lambda>x. if x = old then new else [x]) s)"

definition lower_char :: "char \<Rightarrow> char" where
  "lower_char c =
     (let n = (of_char c :: nat)
      in if (65 \<le> n \<and> n \<le> 90) \<or> (192 \<le> n \<and> n \<le> 214) \<or> (216 \<le> n \<and> n \<le> 222)
         then char_of (n + 32) else c)"

definition lower :: "string \<Rightarrow> string" where
  "lower s = map lower_char s"

definition rfind :: "char \<Rightarrow> string \<Rightarrow> int" where
  \<comment> \<open>\<open>s.rfind(c)\<close>: the last index of \<open>c\<close>, or \<open>-1\<close>.\<close>
  "rfind c s =
     (case filter (\<lambda>i. s ! i = c) (rev [0..<length s]) of [] \<Rightarrow> -1 | i # _ \<Rightarrow> int i)"

definition splitext :: "string \<Rightarrow> string \<times> string" where
  \<comment> \<open>\<open>posixpath.splitext\<close>: the extension starts at the last dot of the last path
      component, unless only dots precede it there.\<close>
  "splitext p =
     (let sepIndex = rfind CHR ''/'' p;
          dotIndex = rfind CHR ''.'' p
      in if dotIndex > sepIndex \<and>
            list_ex (\<lambda>i. p ! i \<noteq> CHR ''.'') [nat (sepIndex + 1)..<nat dotIndex]
         then (take (nat dotIndex) p, drop (nat dotIndex) p)
         else (p, []))"

definition path_join :: "string \<Rightarrow> string \<Rightarrow> string" where
  \<comment> \<open>\<open>posixpath.join(a, b)\<close>.\<close>
  "path_join a b =
     (if b \<noteq> [] \<and> hd b = CHR ''/'' then b
      else if a = [] \<or> last a = CHR ''/'' then a @ b
      else a @ ''/'' @ b)"

subsection \<open>Configuration\<close>

definition CHROMA_BASE_DIR :: string where
  "CHROMA_BASE_DIR = ''kb_storage''"

datatype loader_class = PyPDFLoader | TextLoader | UnstructuredMarkdownLoader | Docx2txtLoader

definition SUPPORTED_EXTENSIONS :: "(string \<times> loader_class) list" where
  "SUPPORTED_EXTENSIONS =
     [(''.pdf'', PyPDFLoader), (''.txt'', TextLoader),
      (''.md'', UnstructuredMarkdownLoader), (''.docx'', Docx2txtLoader)]"

definition get_collection_path :: "string \<Rightarrow> string" where
  "get_collection_path collection_name = path_join CHROMA_BASE_DIR collection_name"

subsection \<open>Documents, requests and responses\<close>

text \<open>
  A langchain \<open>Document\<close>: its text and its metadata dictionary (an association list, in
  insertion order).
\<close>

record document =
  page_content :: string
  metadata :: "(string \<times> string) list"

record upload_file =
  filename :: string
  file_data :: string

datatype message = SuccessfullyIndexed nat string | DeletedSuccessfully string

record upload_response =
  upload_status :: string
  upload_collection :: string
  chunks_added :: nat
  upload_filename :: string
  upload_message :: message

record query_request =
  query :: string
  collection :: string
  top_k :: int

text \<open>One entry of \<open>QueryResponse.documents\<close> (lines 300--305).\<close>

record result_entry =
  content :: string
  entry_metadata :: "(string \<times> string) list"
  distance :: real
  score :: real

record query_response =
  response_query :: string
  documents :: "result_entry list"
  count :: nat


record collection_stats =
  stats_collection :: string
  total_chunks :: nat
  source_files :: "(string \<times> nat) list"
  file_count :: nat
  created_at :: string
  last_updated :: string

subsection \<open>The filesystem and the external collaborators\<close>

text \<open>
  The filesystem maps a path to what is there: a regular file with its content, the
  persist directory of a Chroma store with the documents it holds, or a directory that a
  failed recursive removal has left with part of its files gone. Paths are compared as
  strings.
\<close>

datatype node = File string | Dir "document list" | Damaged

type_synonym filesystem = "string \<rightharpoonup> node"

definition path_exists :: "filesystem \<Rightarrow> string \<Rightarrow> bool" where
  \<comment> \<open>\<open>os.path.exists\<close>\<close>
  "path_exists fs p = (fs p \<noteq> None)"

definition isdir :: "filesystem \<Rightarrow> string \<Rightarrow> bool" where
  \<comment> \<open>\<open>os.path.isdir\<close>\<close>
  "isdir fs p = (case fs p of Some (File c) \<Rightarrow> False | Some n \<Rightarrow> True | None \<Rightarrow> False)"


text \<open>
  What the handlers do not decide themselves is a parameter: the name \<open>tempfile\<close> picks
  and whether the copy of the upload succeeds, whether the constructor of a loader raises,
  the format parsers, the text splitter, the clock, whether the constructor of the vector
  store raises for a collection name and a persist directory (and whether it has created
  the directory by then), whether the vector store fails while writing (and after how many
  documents), the nearest-neighbour search, whether \<open>shutil.rmtree\<close> fails (and whether it
  had already removed part of the subtree), and the timestamps of a path.
\<close>

record env =
  tempfile_stem :: "exn + string"
  copy_fault :: "(exn \<times> nat) option"
  loader_fault :: "loader_class \<Rightarrow> string \<Rightarrow> exn option"
  parse :: "loader_class \<Rightarrow> string \<Rightarrow> string \<Rightarrow> exn + document list"
  split_documents :: "document list \<Rightarrow> document list"
  now :: string
  chroma_fault :: "string \<Rightarrow> string \<Rightarrow> (exn \<times> bool) option"
  store_fault :: "(exn \<times> nat) option"
  similarity_search_with_score :: "document list \<Rightarrow> string \<Rightarrow> int \<Rightarrow> exn + (document \<times> real) list"
  rmtree_fault :: "(exn \<times> bool) option"
  getctime :: "string \<Rightarrow> string"
  getmtime :: "string \<Rightarrow> string"

definition get_loader_for_file :: "env \<Rightarrow> string \<Rightarrow> exn + loader_class" where
  \<comment> \<open>lines 99--104; the loader is constructed on the path, and its constructor may raise\<close>
  "get_loader_for_file E file_path =
     (let ext = lower (snd (splitext file_path))
      in case map_of SUPPORTED_EXTENSIONS ext of
           None \<Rightarrow> Inl (ValueError (''Unsupported file type: '' @ ext))
         | Some cls \<Rightarrow>
             (case loader_fault E cls file_path of
                Some e \<Rightarrow> Inl e
              | None \<Rightarrow> Inr cls))"

definition NamedTemporaryFile :: "env \<Rightarrow> filesystem \<Rightarrow> string \<Rightarrow> (exn + string) \<times> filesystem" where
  \<comment> \<open>\<open>tempfile.NamedTemporaryFile(delete=False, suffix=...)\<close>: creates an empty file
      at a path that did not exist, ending in the suffix.\<close>
  "NamedTemporaryFile E fs suffix =
     (case tempfile_stem E of
        Inl e \<Rightarrow> (Inl e, fs)
      | Inr stem \<Rightarrow>
          if path_exists fs (stem @ suffix) then (Inl (OSError ''FileExistsError''), fs)
          else (Inr (stem @ suffix), fs(stem @ suffix \<mapsto> File [])))"

definition copyfileobj :: "env \<Rightarrow> filesystem \<Rightarrow> string \<Rightarrow> string \<Rightarrow> exn option \<times> filesystem" where
  \<comment> \<open>\<open>shutil.copyfileobj\<close> into the open temporary file; a failing copy leaves what it
      had written.\<close>
  "copyfileobj E fs bytes p =
     (case copy_fault E of
        None \<Rightarrow> (None, fs(p \<mapsto> File bytes))
      | Some (e, n) \<Rightarrow> (Some e, fs(p \<mapsto> File (take n bytes))))"

definition loader_load :: "env \<Rightarrow> filesystem \<Rightarrow> loader_class \<Rightarrow> string \<Rightarrow> exn + document list" where
  \<comment> \<open>\<open>loader.load()\<close>: the format parser run on the file at the path.\<close>
  "loader_load E fs cls p =
     (case fs p of
        Some (File bytes) \<Rightarrow> parse E cls p bytes
      | _ \<Rightarrow> Inl (OSError ''cannot read file''))"

definition Chroma ::
  "env \<Rightarrow> filesystem \<Rightarrow> string \<Rightarrow> string \<Rightarrow> (exn + document list) \<times> filesystem" where
  \<comment> \<open>\<open>Chroma(collection_name, persist_directory, embedding_function)\<close>. A path that
      is a regular file or a partly removed directory cannot be opened. The constructor
      raises for a collection name that the store does not accept, and for a path whose
      store this process has opened before and removed since; it may have created the
      persist directory by then. Otherwise it opens the store of the directory, creating
      an empty one at a path that does not exist.\<close>
  "Chroma E fs collection_name p =
     (case fs p of
        Some (File c) \<Rightarrow> (Inl (LibraryError ''cannot open persist directory''), fs)
      | Some Damaged \<Rightarrow> (Inl (LibraryError ''cannot open persist directory''), fs)
      | Some (Dir stored) \<Rightarrow>
          (case chroma_fault E collection_name p of
             Some (e, created) \<Rightarrow> (Inl e, fs)
           | None \<Rightarrow> (Inr stored, fs))
      | None \<Rightarrow>
          (case chroma_fault E collection_name p of
             Some (e, created) \<Rightarrow> (Inl e, if created then fs(p \<mapsto> Dir []) else fs)
           | None \<Rightarrow> (Inr [], fs(p \<mapsto> Dir []))))"

definition add_documents :: "env \<Rightarrow> filesystem \<Rightarrow> string \<Rightarrow> document list \<Rightarrow> document list \<Rightarrow> exn option \<times> filesystem" where
  \<comment> \<open>\<open>vectordb.add_documents(chunks)\<close>: every document is embedded and stored under a
      fresh id, after what the store holds; a failing write leaves what it had stored.\<close>
  "add_documents E fs p stored chunks =
     (case store_fault E of
        None \<Rightarrow> (None, fs(p \<mapsto> Dir (stored @ chunks)))
      | Some (e, n) \<Rightarrow> (Some e, fs(p \<mapsto> Dir (stored @ take n chunks))))"

definition from_documents ::
  "env \<Rightarrow> filesystem \<Rightarrow> string \<Rightarrow> string \<Rightarrow> document list \<Rightarrow> exn option \<times> filesystem" where
  \<comment> \<open>\<open>Chroma.from_documents\<close>: constructs the store, then adds the documents.\<close>
  "from_documents E fs collection_name p chunks =
     (case Chroma E fs collection_name p of
        (Inl e, fs') \<Rightarrow> (Some e, fs')
      | (Inr stored, fs') \<Rightarrow> add_documents E fs' p stored chunks)"


subsection \<open>Upload (lines 165--261)\<close>

definition add_metadata :: "env \<Rightarrow> upload_file \<Rightarrow> string \<Rightarrow> document \<Rightarrow> document" where
  \<comment> \<open>\<open>chunk.metadata.update({...})\<close>, lines 217--221\<close>
  "add_metadata E f collection' chunk =
     chunk\<lparr>metadata :=
       AList.update ''uploaded_at'' (now E)
         (AList.update ''collection'' collection'
           (AList.update ''source_file'' (filename f) (metadata chunk)))\<rparr>"

definition create_or_append ::
  "env \<Rightarrow> filesystem \<Rightarrow> string \<Rightarrow> string \<Rightarrow> document list \<Rightarrow> exn option \<times> filesystem" where
  \<comment> \<open>lines 227--242: add to the store of an existing path, else create the store\<close>
  "create_or_append E fs collection' collection_path chunks =
     (if path_exists fs collection_path then
        (case Chroma E fs collection' collection_path of
           (Inl e, fs') \<Rightarrow> (Some e, fs')
         | (Inr stored, fs') \<Rightarrow> add_documents E fs' collection_path stored chunks)
      else from_documents E fs collection' collection_path chunks)"

text \<open>
  The body of the \<open>try\<close> block. Beside the outcome and the filesystem it returns what the
  \<open>finally\<close> clause reads: whether \<open>temp_file\<close> is bound to a file object, and the value
  of \<open>temp_path\<close> if it has been assigned.
\<close>

definition upload_try ::
  "env \<Rightarrow> filesystem \<Rightarrow> upload_file \<Rightarrow> string \<Rightarrow> string \<Rightarrow>
   (exn + upload_response) \<times> filesystem \<times> bool \<times> string option" where
  "upload_try E fs f collection' file_ext =
     (case NamedTemporaryFile E fs file_ext of
        (Inl e, fs0) \<Rightarrow> (Inl e, fs0, False, None)
      | (Inr name, fs0) \<Rightarrow>
          (case copyfileobj E fs0 (file_data f) name of
             (Some e, fs1) \<Rightarrow> (Inl e, fs1, True, None)
           | (None, fs1) \<Rightarrow>
               (let temp_path = name in
                case get_loader_for_file E temp_path of
                  Inl e \<Rightarrow> (Inl e, fs1, True, Some temp_path)
                | Inr loader \<Rightarrow>
                    (case loader_load E fs1 loader temp_path of
                       Inl e \<Rightarrow> (Inl e, fs1, True, Some temp_path)
                     | Inr docs \<Rightarrow>
                         (let chunks = split_documents E docs in
                          if chunks = [] then
                            (Inl (HTTPException 400 NoTextExtracted), fs1, True, Some temp_path)
                          else
                            (let chunks' = map (add_metadata E f collection') chunks;
                                 collection_path = get_collection_path collection'
                             in case create_or_append E fs1 collection' collection_path chunks' of
                                  (Some e, fs2) \<Rightarrow> (Inl e, fs2, True, Some temp_path)
                                | (None, fs2) \<Rightarrow>
                                    (Inr \<lparr>upload_status = ''success'',
                                          upload_collection = collection',
                                          chunks_added = length chunks',
                                          upload_filename = filename f,
                                          upload_message =
                                            SuccessfullyIndexed (length chunks') (filename f)\<rparr>,
                                     fs2, True, Some temp_path)))))))"

definition upload_except :: "exn + upload_response \<Rightarrow> exn + upload_response" where
  \<comment> \<open>\<open>except Exception as e\<close>, lines 252--256: every exception of the body, an
      \<open>HTTPException\<close> too, is raised again as a 500\<close>
  "upload_except r =
     (case r of
        Inl e \<Rightarrow> Inl (HTTPException 500 (ErrorProcessingDocument e))
      | Inr resp \<Rightarrow> Inr resp)"

definition upload_finally ::
  "(exn + upload_response) \<times> filesystem \<times> bool \<times> string option \<Rightarrow>
   (exn + upload_response) \<times> filesystem" where
  \<comment> \<open>lines 258--261; reading the unassigned \<open>temp_path\<close> raises, and that exception
      replaces the one in flight\<close>
  "upload_finally x =
     (case x of (r, fs, temp_file, temp_path) \<Rightarrow>
        if \<not> temp_file then (r, fs)
        else (case temp_path of
                None \<Rightarrow> (Inl (UnboundLocalError ''temp_path''), fs)
              | Some p \<Rightarrow> if path_exists fs p then (r, fs(p := None)) else (r, fs)))"

definition upload_document ::
  "env \<Rightarrow> filesystem \<Rightarrow> upload_file \<Rightarrow> string \<Rightarrow> (exn + upload_response) \<times> filesystem" where
  "upload_document E fs f collection' =
     (let file_ext = lower (snd (splitext (filename f))) in
      if map_of SUPPORTED_EXTENSIONS file_ext = None then
        (Inl (HTTPException 400 (UnsupportedFileType file_ext)), fs)
      else if \<not> isalnum (replace CHR ''-'' [] (replace CHR ''_'' [] collection')) then
        (Inl (HTTPException 400 BadCollectionName), fs)
      else
        (case upload_try E fs f collection' file_ext of
           (r, rest) \<Rightarrow> upload_finally (upload_except r, rest)))"

subsection \<open>Query (lines 264--319)\<close>

text \<open>The list comprehension of lines 299--307.\<close>

definition format_results :: "(document \<times> real) list \<Rightarrow> result_entry list" where
  "format_results results =
     map (\<lambda>(doc, s). \<lparr>content = page_content doc,
                       entry_metadata = metadata doc,
                       distance = s,
                       score = max 0 (1 - s / 3)\<rparr>) results"

definition query_collection :: "env \<Rightarrow> filesystem \<Rightarrow> query_request \<Rightarrow> exn + query_response" where
  "query_collection E fs request =
     (let collection_path = get_collection_path (collection request) in
      if \<not> path_exists fs collection_path then
        Inl (HTTPException 404 (CollectionNotFound (collection request)))
      else
        (case fst (Chroma E fs (collection request) collection_path) of
           Inl e \<Rightarrow> Inl (HTTPException 500 (ErrorQueryingCollection e))
         | Inr stored \<Rightarrow>
             (case similarity_search_with_score E stored (query request) (top_k request) of
                Inl e \<Rightarrow> Inl (HTTPException 500 (ErrorQueryingCollection e))
              | Inr results \<Rightarrow>
                  (let docs = format_results results
                   in Inr \<lparr>response_query = query request,
                           documents = docs,
                           count = length docs\<rparr>))))"

subsection \<open>Delete (lines 322--355)\<close>


subsection \<open>Statistics (lines 358--405)\<close>

definition count_source :: "(string \<times> string) list \<Rightarrow> (string \<times> nat) list \<Rightarrow> (string \<times> nat) list" where
  \<comment> \<open>one round of the loop of lines 384--386\<close>
  "count_source md source_files' =
     (let source = (case map_of md ''source_file'' of None \<Rightarrow> ''unknown'' | Some s \<Rightarrow> s)
      in AList.update source
           ((case map_of source_files' source of None \<Rightarrow> 0 | Some n \<Rightarrow> n) + 1) source_files')"

definition stored_metadata :: "document \<Rightarrow> (string \<times> string) list option" where
  \<comment> \<open>an entry of \<open>collection.get()['metadatas']\<close>: the store keeps no metadata for a
      document that was added with an empty dictionary, and returns \<open>None\<close> for it\<close>
  "stored_metadata d = (if metadata d = [] then None else Some (metadata d))"

fun count_sources ::
  "(string \<times> string) list option list \<Rightarrow> (string \<times> nat) list \<Rightarrow> exn + (string \<times> nat) list" where
  \<comment> \<open>the loop of lines 384--386; \<open>metadata.get\<close> raises on \<open>None\<close>\<close>
  "count_sources [] source_files' = Inr source_files'"
| "count_sources (None # rest) source_files' =
     Inl (AttributeError ''NoneType object has no attribute get'')"
| "count_sources (Some md # rest) source_files' =
     count_sources rest (count_source md source_files')"

definition get_collection_stats :: "env \<Rightarrow> filesystem \<Rightarrow> string \<Rightarrow> exn + collection_stats" where
  "get_collection_stats E fs collection_name =
     (let collection_path = get_collection_path collection_name in
      if \<not> path_exists fs collection_path then
        Inl (HTTPException 404 (CollectionNotFound collection_name))
      else
        (case fst (Chroma E fs collection_name collection_path) of
           Inl e \<Rightarrow> Inl (HTTPException 500 (ErrorGettingStats e))
         | Inr stored \<Rightarrow>
             (let metadatas = map stored_metadata stored in
              case count_sources metadatas [] of
                Inl e \<Rightarrow> Inl (HTTPException 500 (ErrorGettingStats e))
              | Inr source_files' \<Rightarrow>
                  Inr \<lparr>stats_collection = collection_name,
                       total_chunks = length stored,
                       source_files = source_files',
                       file_count = length source_files',
                       created_at = getctime E collection_path,
                       last_updated = getmtime E collection_path\<rparr>)))"

subsection \<open>The charset of the specification and an example environment\<close>

text \<open>
  The charset the specification gives for collection names, \<open>[A-Za-z0-9_-]+\<close>, written
  from the specification's words, to be compared with the check of line 189.
\<close>

definition spec_charset :: "string \<Rightarrow> bool" where
  "spec_charset s =
     (s \<noteq> [] \<and>
      list_all (\<lambda>x. x \<in> set (''ABCDEFGHIJKLMNOPQRSTUVWXYZ'' @ ''abcdefghijklmnopqrstuvwxyz'' @
                               ''0123456789'' @ ''_-'')) s)"

text \<open>
  The rule of chromadb for the name of a collection: 3 to 512 characters out of
  \<open>[a-zA-Z0-9._-]\<close>, the first and the last of them out of \<open>[a-zA-Z0-9]\<close>.
\<close>

definition ascii_alnum :: "char \<Rightarrow> bool" where
  "ascii_alnum c =
     (let n = (of_char c :: nat)
      in (48 \<le> n \<and> n \<le> 57) \<or> (65 \<le> n \<and> n \<le> 90) \<or> (97 \<le> n \<and> n \<le> 122))"

definition chromadb_name_rule :: "string \<Rightarrow> bool" where
  "chromadb_name_rule s =
     (3 \<le> length s \<and> length s \<le> 512 \<and>
      list_all (\<lambda>c. ascii_alnum c \<or> c = CHR ''.'' \<or> c = CHR ''_'' \<or> c = CHR ''-'') s \<and>
      ascii_alnum (hd s) \<and> ascii_alnum (last s))"

definition isspace_char :: "char \<Rightarrow> bool" where
  \<comment> \<open>\<open>str.isspace\<close> on one code point below U+0100\<close>
  "isspace_char c =
     (let n = (of_char c :: nat)
      in (9 \<le> n \<and> n \<le> 13) \<or> (28 \<le> n \<and> n \<le> 32) \<or> n = 133 \<or> n = 160)"

definition strip :: "string \<Rightarrow> string" where
  "strip s = dropWhile isspace_char (rev (dropWhile isspace_char (rev s)))"

text \<open>
  An environment to run the handlers in. No file operation fails. A parser returns the
  content of the file as one document whose metadata names the file. The splitter turns
  every document into one chunk, its text stripped of surrounding whitespace, and drops a
  document without text (it stands for the splitter on documents of at most 1000
  characters). The vector store applies the naming rule of chromadb, having created the
  persist directory before it refuses a name. The search returns the first \<open>k\<close> stored
  documents at distance 1.
\<close>

definition example_env :: env where
  "example_env =
     \<lparr>tempfile_stem = Inr ''/tmp/tmpab12cd'',
      copy_fault = None,
      loader_fault = (\<lambda>cls p. None),
      parse = (\<lambda>cls p bytes. Inr [\<lparr>page_content = bytes, metadata = [(''source'', p)]\<rparr>]),
      split_documents =
        (\<lambda>docs. filter (\<lambda>d. page_content d \<noteq> [])
                  (map (\<lambda>d. d\<lparr>page_content := strip (page_content d)\<rparr>) docs)),
      now = ''2024-01-01T00:00:00'',
      chroma_fault =
        (\<lambda>name p. if chromadb_name_rule name then None
                   else Some (ValueError ''Expected a name containing 3-512 characters'', True)),
      store_fault = None,
      similarity_search_with_score =
        (\<lambda>stored q k. Inr (map (\<lambda>d. (d, 1)) (take (nat k) stored))),
      rmtree_fault = None,
      getctime = (\<lambda>p. ''2024-01-01T00:00:00''),
      getmtime = (\<lambda>p. ''2024-01-01T00:00:00'')\<rparr>"

section \<open>Calculator tool (src/tools/calculator/main.py)\<close>

subsection \<open>The abstract syntax of Python expressions\<close>

text \<open>
  The expression nodes of Python's \<open>ast\<close> module, over a type \<open>'v\<close> of numbers (the
  values of \<open>int\<close>, \<open>float\<close> and \<open>complex\<close> literals). \<open>Other\<close> stands for an
  expression class that is not listed, with its class name.
\<close>

datatype operator =
  Add | Sub | Mult | MatMult | Div | Mod | Pow_op | LShift | RShift | BitOr | BitXor | BitAnd
  | FloorDiv

datatype unaryop = Invert | Not_op | UAdd | USub

datatype boolop = And_op | Or_op

datatype cmpop = Eq_op | NotEq | Lt | LtE | Gt | GtE | Is | IsNot | In_op | NotIn

datatype 'v constant_value =
  Number 'v | Boolean bool | Str string | Bytes string | NoneValue | EllipsisValue

datatype 'v expr =
    Constant "'v constant_value"
  | BinOp "'v expr" operator "'v expr"
  | UnaryOp unaryop "'v expr"
  | BoolOp boolop "'v expr list"
  | Compare "'v expr" "cmpop list" "'v expr list"
  | Call "'v expr" "'v expr list"
  | Attribute "'v expr" string
  | Subscript "'v expr" "'v expr"
  | Name string
  | IfExp "'v expr" "'v expr" "'v expr"
  | Lambda "'v expr"
  | List_expr "'v expr list"
  | Tuple "'v expr list"
  | Other string

fun operator_name :: "operator \<Rightarrow> string" where
  "operator_name Add = ''Add''"
| "operator_name Sub = ''Sub''"
| "operator_name Mult = ''Mult''"
| "operator_name MatMult = ''MatMult''"
| "operator_name Div = ''Div''"
| "operator_name Mod = ''Mod''"
| "operator_name Pow_op = ''Pow''"
| "operator_name LShift = ''LShift''"
| "operator_name RShift = ''RShift''"
| "operator_name BitOr = ''BitOr''"
| "operator_name BitXor = ''BitXor''"
| "operator_name BitAnd = ''BitAnd''"
| "operator_name FloorDiv = ''FloorDiv''"

fun unaryop_name :: "unaryop \<Rightarrow> string" where
  "unaryop_name Invert = ''Invert''"
| "unaryop_name Not_op = ''Not''"
| "unaryop_name UAdd = ''UAdd''"
| "unaryop_name USub = ''USub''"

fun type_name :: "'v expr \<Rightarrow> string" where
  "type_name (Constant c) = ''Constant''"
| "type_name (BinOp l op r) = ''BinOp''"
| "type_name (UnaryOp op e) = ''UnaryOp''"
| "type_name (BoolOp op es) = ''BoolOp''"
| "type_name (Compare l ops es) = ''Compare''"
| "type_name (Call f args) = ''Call''"
| "type_name (Attribute e a) = ''Attribute''"
| "type_name (Subscript e i) = ''Subscript''"
| "type_name (Name x) = ''Name''"
| "type_name (IfExp c a b) = ''IfExp''"
| "type_name (Lambda e) = ''Lambda''"
| "type_name (List_expr es) = ''List''"
| "type_name (Tuple es) = ''Tuple''"
| "type_name (Other cls) = cls"

subsection \<open>The safe operations and the evaluator (lines 16--44)\<close>

text \<open>
  The six functions of Python's \<open>operator\<close> module that \<open>SAFE_OPS\<close> names are a
  parameter: each returns a number or raises.
\<close>

record 'v operator_module =
  operator_add :: "'v \<Rightarrow> 'v \<Rightarrow> exn + 'v"
  operator_sub :: "'v \<Rightarrow> 'v \<Rightarrow> exn + 'v"
  operator_mul :: "'v \<Rightarrow> 'v \<Rightarrow> exn + 'v"
  operator_truediv :: "'v \<Rightarrow> 'v \<Rightarrow> exn + 'v"
  operator_pow :: "'v \<Rightarrow> 'v \<Rightarrow> exn + 'v"
  operator_neg :: "'v \<Rightarrow> exn + 'v"

text \<open>
  The keys of \<open>SAFE_OPS\<close> are classes of operator nodes, binary and unary ones in one
  dictionary; its values are functions of two arguments or of one.
\<close>

datatype op_class = BinClass operator | UnClass unaryop

datatype 'v py_function = Binary "'v \<Rightarrow> 'v \<Rightarrow> exn + 'v" | Unary "'v \<Rightarrow> exn + 'v"

definition SAFE_OPS :: "'v operator_module \<Rightarrow> (op_class \<times> 'v py_function) list" where
  "SAFE_OPS M =
     [(BinClass Add, Binary (operator_add M)),
      (BinClass Sub, Binary (operator_sub M)),
      (BinClass Mult, Binary (operator_mul M)),
      (BinClass Div, Binary (operator_truediv M)),
      (BinClass Pow_op, Binary (operator_pow M)),
      (UnClass USub, Unary (operator_neg M))]"

fun call2 :: "'v py_function \<Rightarrow> 'v \<Rightarrow> 'v \<Rightarrow> exn + 'v" where
  \<comment> \<open>\<open>op(a, b)\<close>\<close>
  "call2 (Binary g) a b = g a b"
| "call2 (Unary g) a b = Inl (TypeError ''takes 1 positional argument but 2 were given'')"

fun call1 :: "'v py_function \<Rightarrow> 'v \<Rightarrow> exn + 'v" where
  \<comment> \<open>\<open>op(a)\<close>\<close>
  "call1 (Unary g) a = g a"
| "call1 (Binary g) a = Inl (TypeError ''missing 1 required positional argument'')"

text \<open>
  \<open>isinstance(node, ast.Num)\<close> holds of a \<open>Constant\<close> whose value is a number and no
  \<open>bool\<close>. In a call \<open>op(eval_node(left), eval_node(right))\<close> the operator has been
  looked up first; then the left operand is evaluated, then the right one.

  The interpreter bounds the depth of nested calls: \<open>limit\<close> is the number of nested calls
  of \<open>eval_node\<close> that it still allows, and a call beyond it raises \<open>RecursionError\<close>.

  Beside its result the model returns the functions that have been applied, in the order
  of their application: the calls \<open>op(...)\<close> of lines 34 and 39 are the only places where
  \<open>eval_node\<close> applies a function that it has taken from data.
\<close>

fun eval_node ::
  "'v operator_module \<Rightarrow> nat \<Rightarrow> 'v expr \<Rightarrow> (exn + 'v) \<times> 'v py_function list" where
  "eval_node M 0 node = (Inl (RecursionError ''maximum recursion depth exceeded''), [])"
| "eval_node M (Suc limit) (Constant (Number n)) = (Inr n, [])"
| "eval_node M (Suc limit) (BinOp left op right) =
     (case map_of (SAFE_OPS M) (BinClass op) of
        None \<Rightarrow> (Inl (ValueError (''Unsupported operation: '' @ operator_name op)), [])
      | Some f \<Rightarrow>
          (case eval_node M limit left of
             (Inl e, applied) \<Rightarrow> (Inl e, applied)
           | (Inr a, applied) \<Rightarrow>
               (case eval_node M limit right of
                  (Inl e, applied') \<Rightarrow> (Inl e, applied @ applied')
                | (Inr b, applied') \<Rightarrow> (call2 f a b, applied @ applied' @ [f]))))"
| "eval_node M (Suc limit) (UnaryOp op operand) =
     (case map_of (SAFE_OPS M) (UnClass op) of
        None \<Rightarrow> (Inl (ValueError (''Unsupported operation: '' @ unaryop_name op)), [])
      | Some f \<Rightarrow>
          (case eval_node M limit operand of
             (Inl e, applied) \<Rightarrow> (Inl e, applied)
           | (Inr a, applied) \<Rightarrow> (call1 f a, applied @ [f])))"
| "eval_node M (Suc limit) node =
     (Inl (ValueError (''Unsupported expression: '' @ type_name node)), [])"

definition safe_eval ::
  "'v operator_module \<Rightarrow> (string \<Rightarrow> exn + 'v expr) \<Rightarrow> nat \<Rightarrow> string \<Rightarrow>
   (exn + 'v) \<times> 'v py_function list" where
  \<comment> \<open>\<open>ast_parse\<close> is \<open>ast.parse(expr_str, mode='eval')\<close> followed by \<open>.body\<close>: the
      expression, or the exception that the parser raises\<close>
  "safe_eval M ast_parse limit expr_str =
     (case ast_parse expr_str of
        Inl e \<Rightarrow> (Inl e, [])
      | Inr body \<Rightarrow> eval_node M limit body)"

subsection \<open>Arithmetic expressions, operator failures, an example operator module\<close>

text \<open>
  The expressions the calculator is meant for: numeric literals combined by addition,
  subtraction, multiplication, division, power and unary negation.
\<close>

fun arithmetic_expr :: "'v expr \<Rightarrow> bool" where
  "arithmetic_expr (Constant (Number n)) = True"
| "arithmetic_expr (BinOp left op right) =
     ((op = Add \<or> op = Sub \<or> op = Mult \<or> op = Div \<or> op = Pow_op) \<and>
      arithmetic_expr left \<and> arithmetic_expr right)"
| "arithmetic_expr (UnaryOp op operand) = (op = USub \<and> arithmetic_expr operand)"
| "arithmetic_expr node = False"

definition operator_raises :: "'v operator_module \<Rightarrow> exn \<Rightarrow> bool" where
  \<comment> \<open>one of the six operator functions raises \<open>x\<close> on some operands\<close>
  "operator_raises M x =
     (\<exists>a b. operator_add M a b = Inl x \<or> operator_sub M a b = Inl x \<or>
            operator_mul M a b = Inl x \<or> operator_truediv M a b = Inl x \<or>
            operator_pow M a b = Inl x \<or> operator_neg M a = Inl x)"

text \<open>
  An operator module to run the evaluator in: exact arithmetic on the rationals. A division
  by zero raises as Python's does. (Python rounds a quotient to a float; the quotient here
  is exact. A power with an exponent that is no integer is not represented.)
\<close>

definition exact_operators :: "rat operator_module" where
  "exact_operators =
     \<lparr>operator_add = (\<lambda>a b. Inr (a + b)),
      operator_sub = (\<lambda>a b. Inr (a - b)),
      operator_mul = (\<lambda>a b. Inr (a * b)),
      operator_truediv =
        (\<lambda>a b. if b = 0 then Inl (ZeroDivisionError ''division by zero'') else Inr (a / b)),
      operator_pow =
        (\<lambda>a b. if of_int \<lfloor>b\<rfloor> \<noteq> b then Inl (ArithmeticError ''exponent is no integer'')
               else if 0 \<le> b then Inr (a ^ nat \<lfloor>b\<rfloor>)
               else if a = 0 then Inl (ZeroDivisionError ''0 cannot be raised to a negative power'')
               else Inr (1 / a ^ nat \<lfloor>- b\<rfloor>)),
      operator_neg = (\<lambda>a. Inr (- a))\<rparr>"

text \<open>What \<open>ast.parse\<close> returns on the three strings used below; no other string is parsed.\<close>

definition example_parse :: "string \<Rightarrow> exn + rat expr" where
  "example_parse s =
     (if s = ''2 + 3 * 4'' then
        Inr (BinOp (Constant (Number 2)) Add
               (BinOp (Constant (Number 3)) Mult (Constant (Number 4))))
      else if s = ''x + 1'' then
        Inr (BinOp (Name ''x'') Add (Constant (Number 1)))
      else if s = ''1/0 + x'' then
        Inr (BinOp (BinOp (Constant (Number 1)) Div (Constant (Number 0))) Add (Name ''x''))
      else Inl (SyntaxError ''invalid syntax''))"

section \<open>Theorems\<close>

subsection \<open>Similarity score\<close>




subsection \<open>Evaluation of the string operations on the inputs used below\<close>

lemma ext_notes_exe: "lower (snd (splitext ''notes.exe'')) = ''.exe''"
  by code_simp

lemma ext_a_txt: "lower (snd (splitext ''a.txt'')) = ''.txt''"
  by code_simp

lemma ext_temp_txt: "lower (snd (splitext ''/tmp/tmpab12cd.txt'')) = ''.txt''"
  by code_simp

lemma supported_txt: "map_of SUPPORTED_EXTENSIONS ''.txt'' = Some TextLoader"
  by code_simp

lemma unsupported_exe: "map_of SUPPORTED_EXTENSIONS ''.exe'' = None"
  by code_simp

lemma name_docs_ok: "isalnum (replace CHR ''-'' [] (replace CHR ''_'' [] ''docs''))"
  by code_simp

lemma name_ab_ok: "isalnum (replace CHR ''-'' [] (replace CHR ''_'' [] ''ab''))"
  by code_simp

lemma name_underscore_bad: "\<not> isalnum (replace CHR ''-'' [] (replace CHR ''_'' [] ''_''))"
  by code_simp

lemma path_docs: "get_collection_path ''docs'' = ''kb_storage/docs''"
  by code_simp

lemma path_ab: "get_collection_path ''ab'' = ''kb_storage/ab''"
  by code_simp

lemma rule_docs: "chromadb_name_rule ''docs''"
  by code_simp

lemma rule_ab: "\<not> chromadb_name_rule ''ab''"
  by code_simp

lemma strip_empty: "strip [] = []"
  by code_simp

lemma strip_x: "strip ''x'' = ''x''"
  by code_simp

lemma example_env_fields:
  "tempfile_stem example_env = Inr ''/tmp/tmpab12cd''"
  "copy_fault example_env = None"
  "loader_fault example_env cls p = None"
  "parse example_env cls p bytes = Inr [\<lparr>page_content = bytes, metadata = [(''source'', p)]\<rparr>]"
  "split_documents example_env docs =
     filter (\<lambda>d. page_content d \<noteq> [])
       (map (\<lambda>d. d\<lparr>page_content := strip (page_content d)\<rparr>) docs)"
  "now example_env = ''2024-01-01T00:00:00''"
  "chroma_fault example_env name p =
     (if chromadb_name_rule name then None
      else Some (ValueError ''Expected a name containing 3-512 characters'', True))"
  "store_fault example_env = None"
  "similarity_search_with_score example_env stored q k =
     Inr (map (\<lambda>d. (d, 1)) (take (nat k) stored))"
  "rmtree_fault example_env = None"
  by (simp_all add: example_env_def)

lemma loader_temp_txt: "get_loader_for_file example_env ''/tmp/tmpab12cd.txt'' = Inr TextLoader"
  by (simp add: get_loader_for_file_def ext_temp_txt supported_txt example_env_fields)

lemmas upload_defs =
  upload_document_def upload_try_def upload_except_def upload_finally_def
  NamedTemporaryFile_def copyfileobj_def loader_load_def create_or_append_def
  from_documents_def add_documents_def Chroma_def path_exists_def add_metadata_def
  example_env_fields Let_def

subsection \<open>Unsupported extensions\<close>

text \<open>
  C7. An upload whose filename extension (lower-cased, as line 181 computes it) is not a key
  of \<open>SUPPORTED_EXTENSIONS\<close> fails with the status 400 and the detail
  "Unsupported file type", and the filesystem it returns is the one it was given: nothing
  was read or written.
\<close>

theorem unsupported_extension_rejected:
  "map_of SUPPORTED_EXTENSIONS (lower (snd (splitext (filename f)))) = None \<Longrightarrow>
   upload_document E fs f c =
     (Inl (HTTPException 400 (UnsupportedFileType (lower (snd (splitext (filename f)))))), fs)"
  by (simp add: upload_document_def Let_def)

theorem unsupported_extension_rejected_witness:
  "map_of SUPPORTED_EXTENSIONS
     (lower (snd (splitext (filename \<lparr>filename = ''notes.exe'', file_data = ''MZ''\<rparr>)))) = None \<and>
   upload_document example_env [''kb_storage/docs'' \<mapsto> Dir []]
     \<lparr>filename = ''notes.exe'', file_data = ''MZ''\<rparr> ''docs'' =
     (Inl (HTTPException 400 (UnsupportedFileType ''.exe'')), [''kb_storage/docs'' \<mapsto> Dir []])"
proof -
  have h: "map_of SUPPORTED_EXTENSIONS
     (lower (snd (splitext (filename \<lparr>filename = ''notes.exe'', file_data = ''MZ''\<rparr>)))) = None"
    by (simp add: ext_notes_exe unsupported_exe)
  show ?thesis
    using h unsupported_extension_rejected [OF h, of example_env "[''kb_storage/docs'' \<mapsto> Dir []]" "''docs''"]
    by (simp add: ext_notes_exe)
qed

subsection \<open>Collection names\<close>

text \<open>
  C2 (the code at the failing input). The name \<open>_\<close> is in the charset
  \<open>[A-Za-z0-9_-]+\<close>, and it contains nothing but an underscore, which the message of
  line 192 allows. The test of line 189 removes the underscore and asks whether the empty
  rest is alphanumeric: the upload is rejected with the status 400 and the detail of a bad
  collection name.
\<close>

theorem underscore_name_rejected:
  "spec_charset ''_'' \<and>
   upload_document example_env Map.empty \<lparr>filename = ''a.txt'', file_data = ''x''\<rparr> ''_'' =
     (Inl (HTTPException 400 BadCollectionName), Map.empty)"
proof -
  have "spec_charset ''_''"
    by code_simp
  then show ?thesis
    by (simp add: upload_document_def ext_a_txt supported_txt name_underscore_bad)
qed

subsection \<open>Documents without text\<close>

text \<open>
  C3 (the code at the failing input). An upload of an empty text file into the existing
  collection \<open>docs\<close> yields no chunks. The 400 of line 210 is raised inside the
  \<open>try\<close> block, caught by the handler of line 252 and raised again with the status 500.
  The collection is left as it was.
\<close>

theorem empty_document_status_500:
  "upload_document example_env
     [''kb_storage/docs'' \<mapsto> Dir [\<lparr>page_content = ''old'', metadata = []\<rparr>]]
     \<lparr>filename = ''a.txt'', file_data = []\<rparr> ''docs'' =
   (Inl (HTTPException 500 (ErrorProcessingDocument (HTTPException 400 NoTextExtracted))),
    [''kb_storage/docs'' \<mapsto> Dir [\<lparr>page_content = ''old'', metadata = []\<rparr>]])"
  by (simp add: upload_defs ext_a_txt supported_txt name_docs_ok loader_temp_txt strip_empty)

subsection \<open>The scratch copy\<close>

text \<open>
  C9 (the code at the failing input). The copy of the upload into the temporary file fails
  after one byte. The file exists by then, since it was created with \<open>delete=False\<close>,
  and \<open>temp_file\<close> is bound, but \<open>temp_path\<close> has not been assigned. The \<open>finally\<close>
  clause of lines 258--261 reads \<open>temp_path\<close> and raises \<open>UnboundLocalError\<close> before it
  reaches \<open>os.unlink\<close>: the upload ends with that exception and the scratch copy stays.
\<close>

theorem failed_copy_leaves_scratch_file:
  "upload_document (example_env\<lparr>copy_fault := Some (OSError ''connection reset'', 1)\<rparr>)
     Map.empty \<lparr>filename = ''a.txt'', file_data = ''xyz''\<rparr> ''docs'' =
   (Inl (UnboundLocalError ''temp_path''), [''/tmp/tmpab12cd.txt'' \<mapsto> File ''x''])"
  by (simp add: upload_defs ext_a_txt supported_txt name_docs_ok)

subsection \<open>Ingestion into a collection with a short name\<close>

text \<open>
  C4 (the code at the failing input). The name \<open>ab\<close> is in the charset
  \<open>[A-Za-z0-9_-]+\<close> and passes the test of line 189. The vector store does not accept a
  name of two characters: its constructor raises, the handler of line 252 turns that into
  the status 500, no chunk is stored, and the statistics of \<open>ab\<close> fail as well where the
  claim has them report the chunk count.
\<close>

theorem short_name_ingestion_fails:
  "spec_charset ''ab'' \<and>
   fst (upload_document example_env Map.empty
          \<lparr>filename = ''a.txt'', file_data = ''x''\<rparr> ''ab'') =
     Inl (HTTPException 500 (ErrorProcessingDocument
            (ValueError ''Expected a name containing 3-512 characters''))) \<and>
   isl (get_collection_stats example_env
          (snd (upload_document example_env Map.empty
                  \<lparr>filename = ''a.txt'', file_data = ''x''\<rparr> ''ab'')) ''ab'')"
proof -
  have c: "spec_charset ''ab''"
    by code_simp
  have u: "upload_document example_env Map.empty
          \<lparr>filename = ''a.txt'', file_data = ''x''\<rparr> ''ab'' =
     (Inl (HTTPException 500 (ErrorProcessingDocument
            (ValueError ''Expected a name containing 3-512 characters''))),
      [''kb_storage/ab'' \<mapsto> Dir []])"
    by (simp add: upload_defs ext_a_txt supported_txt name_ab_ok loader_temp_txt strip_x
        path_ab rule_ab)
  have s: "isl (get_collection_stats example_env [''kb_storage/ab'' \<mapsto> Dir []] ''ab'')"
    by (simp add: get_collection_stats_def path_ab path_exists_def Chroma_def
        example_env_fields rule_ab)
  show ?thesis
    using c s by (simp add: u)
qed

subsection \<open>Queries on a path that is no directory\<close>

text \<open>
  C5 (the code at the failing input). With a regular file at the storage path of \<open>docs\<close>
  the path is no directory, so the collection does not exist. The test of line 279 is
  \<open>os.path.exists\<close>, which holds of the file: the query does not fail with the status 404,
  it goes on to open the store and fails with the status 500.
\<close>

theorem query_regular_file_status_500:
  "\<not> isdir [''kb_storage/docs'' \<mapsto> File ''x''] (get_collection_path ''docs'') \<and>
   query_collection example_env [''kb_storage/docs'' \<mapsto> File ''x'']
     \<lparr>query = ''q'', collection = ''docs'', top_k = 5\<rparr> =
   Inl (HTTPException 500
         (ErrorQueryingCollection (LibraryError ''cannot open persist directory'')))"
  by (simp add: query_collection_def path_docs isdir_def path_exists_def Chroma_def)

subsection \<open>Deletion\<close>




subsection \<open>The calculator evaluates arithmetic only\<close>

lemma safe_ops_operator:
  "map_of (SAFE_OPS M) (BinClass op) =
     (if op = Add then Some (Binary (operator_add M))
      else if op = Sub then Some (Binary (operator_sub M))
      else if op = Mult then Some (Binary (operator_mul M))
      else if op = Div then Some (Binary (operator_truediv M))
      else if op = Pow_op then Some (Binary (operator_pow M))
      else None)"
  by (simp add: SAFE_OPS_def)

lemma safe_ops_unaryop:
  "map_of (SAFE_OPS M) (UnClass op) =
     (if op = USub then Some (Unary (operator_neg M)) else None)"
  by (simp add: SAFE_OPS_def)

lemma safe_operator:
  "map_of (SAFE_OPS M) (BinClass op) = Some f \<Longrightarrow>
   op = Add \<or> op = Sub \<or> op = Mult \<or> op = Div \<or> op = Pow_op"
  by (simp add: safe_ops_operator split: if_splits)

lemma safe_unaryop: "map_of (SAFE_OPS M) (UnClass op) = Some f \<Longrightarrow> op = USub"
  by (simp add: safe_ops_unaryop split: if_splits)

lemma eval_binop:
  "eval_node M (Suc limit) (BinOp left op right) = (Inr v, applied) \<Longrightarrow>
   (\<exists>f. map_of (SAFE_OPS M) (BinClass op) = Some f) \<and>
   (\<exists>a as. eval_node M limit left = (Inr a, as)) \<and>
   (\<exists>b bs. eval_node M limit right = (Inr b, bs))"
  by (simp split: option.splits prod.splits sum.splits)

lemma eval_unaryop:
  "eval_node M (Suc limit) (UnaryOp op operand) = (Inr v, applied) \<Longrightarrow>
   (\<exists>f. map_of (SAFE_OPS M) (UnClass op) = Some f) \<and>
   (\<exists>a as. eval_node M limit operand = (Inr a, as))"
  by (simp split: option.splits prod.splits sum.splits)

lemma value_only_arithmetic: "fst (eval_node M limit e) = Inr v \<Longrightarrow> arithmetic_expr e"
proof (induction limit arbitrary: e v)
  case 0
  then show ?case by simp
next
  case (Suc limit)
  obtain applied where r: "eval_node M (Suc limit) e = (Inr v, applied)"
    using Suc.prems by (cases "eval_node M (Suc limit) e") simp
  show ?case
  proof (cases e)
    case (Constant c)
    then show ?thesis using r by (cases c) simp_all
  next
    case (BinOp left op right)
    from eval_binop [OF r [unfolded BinOp]]
    obtain f a as b bs where "map_of (SAFE_OPS M) (BinClass op) = Some f"
      and "eval_node M limit left = (Inr a, as)" and "eval_node M limit right = (Inr b, bs)"
      by blast
    then show ?thesis
      using Suc.IH [of left a] Suc.IH [of right b] safe_operator [of M op f]
      by (simp add: BinOp)
  next
    case (UnaryOp op operand)
    from eval_unaryop [OF r [unfolded UnaryOp]]
    obtain f a as where "map_of (SAFE_OPS M) (UnClass op) = Some f"
      and "eval_node M limit operand = (Inr a, as)"
      by blast
    then show ?thesis
      using Suc.IH [of operand a] safe_unaryop [of M op f]
      by (simp add: UnaryOp)
  qed (use r in simp_all)
qed


lemma binary_raises:
  "map_of (SAFE_OPS M) (BinClass op) = Some f \<Longrightarrow> call2 f a b = Inl x \<Longrightarrow>
   operator_raises M x"
  by (auto simp: safe_ops_operator split: if_splits; unfold operator_raises_def; blast)

lemma unary_raises:
  "map_of (SAFE_OPS M) (UnClass op) = Some f \<Longrightarrow> call1 f a = Inl x \<Longrightarrow>
   operator_raises M x"
  by (auto simp: safe_ops_unaryop split: if_splits; unfold operator_raises_def; blast)

lemma binop_error:
  "fst (eval_node M (Suc limit) (BinOp left op right)) = Inl x \<Longrightarrow>
   (\<exists>msg. x = ValueError msg) \<or>
   fst (eval_node M limit left) = Inl x \<or>
   fst (eval_node M limit right) = Inl x \<or>
   (\<exists>f a b. map_of (SAFE_OPS M) (BinClass op) = Some f \<and> call2 f a b = Inl x)"
  by (cases "map_of (SAFE_OPS M) (BinClass op)"; cases "eval_node M limit left";
      cases "eval_node M limit right"; cases "fst (eval_node M limit left)";
      cases "fst (eval_node M limit right)") auto

lemma unaryop_error:
  "fst (eval_node M (Suc limit) (UnaryOp op operand)) = Inl x \<Longrightarrow>
   (\<exists>msg. x = ValueError msg) \<or>
   fst (eval_node M limit operand) = Inl x \<or>
   (\<exists>f a. map_of (SAFE_OPS M) (UnClass op) = Some f \<and> call1 f a = Inl x)"
  by (cases "map_of (SAFE_OPS M) (UnClass op)"; cases "eval_node M limit operand";
      cases "fst (eval_node M limit operand)") auto

lemma error_kind:
  "fst (eval_node M limit e) = Inl x \<Longrightarrow>
   (\<exists>msg. x = ValueError msg) \<or> operator_raises M x \<or> (\<exists>msg. x = RecursionError msg)"
proof (induction limit arbitrary: e x)
  case 0
  then show ?case by auto
next
  case (Suc limit)
  show ?case
  proof (cases e)
    case (Constant c)
    then show ?thesis using Suc.prems by (cases c) auto
  next
    case (BinOp left op right)
    then show ?thesis
      using binop_error [of M limit left op right x] Suc.prems
        Suc.IH [of left x] Suc.IH [of right x] binary_raises [of M op _ _ _ x]
      by blast
  next
    case (UnaryOp op operand)
    then show ?thesis
      using unaryop_error [of M limit op operand x] Suc.prems
        Suc.IH [of operand x] unary_raises [of M op _ _ x]
      by blast
  qed (use Suc.prems in auto)
qed

lemma binop_applied:
  "g \<in> set (snd (eval_node M (Suc limit) (BinOp left op right))) \<Longrightarrow>
   g \<in> set (snd (eval_node M limit left)) \<or>
   g \<in> set (snd (eval_node M limit right)) \<or>
   map_of (SAFE_OPS M) (BinClass op) = Some g"
  by (cases "map_of (SAFE_OPS M) (BinClass op)"; cases "eval_node M limit left";
      cases "eval_node M limit right"; cases "fst (eval_node M limit left)";
      cases "fst (eval_node M limit right)") auto

lemma unaryop_applied:
  "g \<in> set (snd (eval_node M (Suc limit) (UnaryOp op operand))) \<Longrightarrow>
   g \<in> set (snd (eval_node M limit operand)) \<or>
   map_of (SAFE_OPS M) (UnClass op) = Some g"
  by (cases "map_of (SAFE_OPS M) (UnClass op)"; cases "eval_node M limit operand";
      cases "fst (eval_node M limit operand)") auto

lemma in_safe_ops: "map_of (SAFE_OPS M) k = Some g \<Longrightarrow> g \<in> snd ` set (SAFE_OPS M)"
  using map_of_SomeD [of "SAFE_OPS M" k g] by force

lemma applied_safe_ops:
  "g \<in> set (snd (eval_node M limit e)) \<Longrightarrow> g \<in> snd ` set (SAFE_OPS M)"
proof (induction limit arbitrary: e)
  case 0
  then show ?case by simp
next
  case (Suc limit)
  show ?case
  proof (cases e)
    case (Constant c)
    then show ?thesis using Suc.prems by (cases c) simp_all
  next
    case (BinOp left op right)
    then show ?thesis
      using binop_applied [of g M limit left op right] Suc.prems
        Suc.IH [of left] Suc.IH [of right] in_safe_ops [of M "BinClass op" g]
      by blast
  next
    case (UnaryOp op operand)
    then show ?thesis
      using unaryop_applied [of g M limit op operand] Suc.prems
        Suc.IH [of operand] in_safe_ops [of M "UnClass op" g]
      by blast
  qed (use Suc.prems in simp_all)
qed

lemma div_zero_any_limit:
  "fst (eval_node exact_operators (Suc (Suc (Suc n)))
     (BinOp (BinOp (Constant (Number 1)) Div (Constant (Number 0))) Add (Name ''x''))) =
   Inl (ZeroDivisionError ''division by zero'')"
  by (simp add: safe_ops_operator exact_operators_def)

lemma sum_any_limit:
  "fst (eval_node exact_operators (Suc (Suc (Suc n)))
     (BinOp (Constant (Number 2)) Add
        (BinOp (Constant (Number 3)) Mult (Constant (Number 4))))) = Inr 14"
  by (simp add: safe_ops_operator exact_operators_def)

text \<open>
  C10 (as stated, refuted). The string \<open>1/0 + x\<close> parses to an addition whose right operand
  is a name. The left operand is evaluated first and the division raises: the evaluation
  ends in a \<open>ZeroDivisionError\<close>, not in a \<open>ValueError\<close>.
\<close>

theorem name_after_division_counterexample:
  "example_parse ''1/0 + x'' =
     Inr (BinOp (BinOp (Constant (Number 1)) Div (Constant (Number 0))) Add (Name ''x'')) \<and>
   \<not> arithmetic_expr
       (BinOp (BinOp (Constant (Number 1)) Div (Constant (Number 0))) Add (Name ''x'')
          :: rat expr) \<and>
   fst (safe_eval exact_operators example_parse 1000 ''1/0 + x'') =
     Inl (ZeroDivisionError ''division by zero'')"
  using div_zero_any_limit [of 997] by (simp add: safe_eval_def example_parse_def)

text \<open>
  C10 (amended). \<open>safe_eval\<close> returns a value only for a string that parses to an
  expression built from numeric literals by addition, subtraction, multiplication,
  division, power and unary negation. For a string that parses to any other expression it
  raises rather than returns a value: a \<open>ValueError\<close>, unless an operator function has
  raised on operands evaluated before, or the recursion limit of the interpreter has been
  reached. A name, a call, an attribute, a subscript or a comparison that is evaluated
  raises a \<open>ValueError\<close>. Every function that is applied in the course of the evaluation
  is one of the six of \<open>SAFE_OPS\<close>.
\<close>

theorem safe_eval_arithmetic_only:
  "(fst (safe_eval M ast_parse limit s) = Inr v \<longrightarrow>
      (\<exists>body. ast_parse s = Inr body \<and> arithmetic_expr body)) \<and>
   (ast_parse s = Inr body \<and> \<not> arithmetic_expr body \<longrightarrow>
      (\<exists>x. fst (safe_eval M ast_parse limit s) = Inl x \<and>
           ((\<exists>msg. x = ValueError msg) \<or> operator_raises M x \<or>
            (\<exists>msg. x = RecursionError msg)))) \<and>
   (0 < limit \<longrightarrow>
      fst (eval_node M limit (Name n)) = Inl (ValueError ''Unsupported expression: Name'') \<and>
      fst (eval_node M limit (Call f args)) = Inl (ValueError ''Unsupported expression: Call'') \<and>
      fst (eval_node M limit (Attribute e a)) =
        Inl (ValueError ''Unsupported expression: Attribute'') \<and>
      fst (eval_node M limit (Subscript e i)) =
        Inl (ValueError ''Unsupported expression: Subscript'') \<and>
      fst (eval_node M limit (Compare e ops es)) =
        Inl (ValueError ''Unsupported expression: Compare'')) \<and>
   (\<forall>g \<in> set (snd (safe_eval M ast_parse limit s)). g \<in> snd ` set (SAFE_OPS M))"
proof (intro conjI impI ballI)
  assume "fst (safe_eval M ast_parse limit s) = Inr v"
  then show "\<exists>body. ast_parse s = Inr body \<and> arithmetic_expr body"
    by (auto simp: safe_eval_def split: sum.splits dest: value_only_arithmetic)
next
  assume a: "ast_parse s = Inr body \<and> \<not> arithmetic_expr body"
  then have "\<exists>x. fst (eval_node M limit body) = Inl x"
    using value_only_arithmetic [of M limit body]
    by (cases "fst (eval_node M limit body)") auto
  then obtain x where x: "fst (eval_node M limit body) = Inl x"
    by blast
  have "(\<exists>msg. x = ValueError msg) \<or> operator_raises M x \<or> (\<exists>msg. x = RecursionError msg)"
    using x by (rule error_kind)
  then show "\<exists>x. fst (safe_eval M ast_parse limit s) = Inl x \<and>
      ((\<exists>msg. x = ValueError msg) \<or> operator_raises M x \<or> (\<exists>msg. x = RecursionError msg))"
    using a x by (simp add: safe_eval_def)
next
  fix g
  assume "g \<in> set (snd (safe_eval M ast_parse limit s))"
  then show "g \<in> snd ` set (SAFE_OPS M)"
    by (auto simp: safe_eval_def split: sum.splits dest: applied_safe_ops)
qed (cases limit; simp)+

theorem safe_eval_arithmetic_only_witness:
  "fst (safe_eval exact_operators example_parse 1000 ''2 + 3 * 4'') = Inr 14 \<and>
   (\<exists>body. example_parse ''2 + 3 * 4'' = Inr body \<and> arithmetic_expr body) \<and>
   example_parse ''x + 1'' = Inr (BinOp (Name ''x'') Add (Constant (Number 1))) \<and>
   \<not> arithmetic_expr (BinOp (Name ''x'') Add (Constant (Number 1)) :: rat expr) \<and>
   (\<exists>x. fst (safe_eval exact_operators example_parse 1000 ''x + 1'') = Inl x \<and>
        ((\<exists>msg. x = ValueError msg) \<or> operator_raises exact_operators x \<or>
         (\<exists>msg. x = RecursionError msg))) \<and>
   (0 :: nat) < 1000 \<and>
   fst (eval_node exact_operators 1000 (Name ''x'')) =
     Inl (ValueError ''Unsupported expression: Name'')"
proof -
  have h1: "fst (safe_eval exact_operators example_parse 1000 ''2 + 3 * 4'') = Inr 14"
    using sum_any_limit [of 997] by (simp add: safe_eval_def example_parse_def)
  have h2: "example_parse ''x + 1'' = Inr (BinOp (Name ''x'') Add (Constant (Number 1))) \<and>
      \<not> arithmetic_expr (BinOp (Name ''x'') Add (Constant (Number 1)) :: rat expr)"
    by (simp add: example_parse_def)
  have h3: "(0 :: nat) < 1000"
    by simp
  show ?thesis
    using h1 h2 h3
      safe_eval_arithmetic_only [of exact_operators example_parse 1000 "''2 + 3 * 4''" 14]
      safe_eval_arithmetic_only [of exact_operators example_parse 1000 "''x + 1''" _
        "BinOp (Name ''x'') Add (Constant (Number 1))" "''x''"]
    by blast
qed

end
